theory Spec2Isabelle
  imports Complex_Main "HOL-Library.Char_ord" "HOL-Library.List_Lexorder"
begin

section \<open>The VECM forecaster adapter of sktime (sktime/forecasting/vecm.py)\<close>

text \<open>
  The module wraps the VECM estimator of statsmodels behind sktime's forecaster
  interface. The embedding follows the Python source method by method. What the source
  only calls (statsmodels, pandas, numpy, and sktime's own base class and forecasting
  horizon) is either a parameter of the model or a small definition with the behaviour
  of the library at the calls the source makes.
\<close>

subsection \<open>Python values, exceptions\<close>

text \<open>
  A float is an exact real number or NaN: rounding and infinities are left out, so that
  \<open>1 - c\<close> is exact here (the source does no arithmetic of its own beyond one
  subtraction per coverage value and one per table cell).
\<close>

datatype float64 = F real | NaN

fun fsub :: "float64 \<Rightarrow> float64 \<Rightarrow> float64" where
  "fsub (F a) (F b) = F (a - b)"
| "fsub _ _ = NaN"

text \<open>Values of configuration options: the constructor accepts anything.\<close>

datatype pyval = PNone | PInt int | PStr string | PFloat float64 | PArray "float64 list list"

text \<open>Row and column labels of a table: integers or strings.\<close>

datatype label = LInt int | LStr string

text \<open>
  The exceptions that can leave the adapter. \<open>LibraryError\<close> is whatever the
  estimation library raises.
\<close>

datatype error =
    AttributeError | TypeError | ValueError | IndexError
  | NotFittedError | LibraryError string

definition bind_err :: "error + 'a \<Rightarrow> ('a \<Rightarrow> error + 'b) \<Rightarrow> error + 'b" where
  "bind_err m f = (case m of Inl e \<Rightarrow> Inl e | Inr x \<Rightarrow> f x)"

subsection \<open>numpy arrays and pandas tables, as far as the source uses them\<close>

type_synonym matrix = "float64 list list"

definition ncols :: "'a list list \<Rightarrow> nat" where
  "ncols m = (case m of [] \<Rightarrow> 0 | r # _ \<Rightarrow> length r)"

text \<open>\<open>a[i]\<close>: a negative index counts from the end, out of range raises.\<close>

definition np_item :: "'a list \<Rightarrow> int \<Rightarrow> error + 'a" where
  "np_item xs i =
     (if 0 \<le> i \<and> i < int (length xs) then Inr (xs ! nat i)
      else if i < 0 \<and> - int (length xs) \<le> i then Inr (xs ! nat (int (length xs) + i))
      else Inl IndexError)"

text \<open>\<open>a[indexer, :]\<close> with a list of integers: one row per index, in its order.\<close>

fun np_take :: "'a list \<Rightarrow> int list \<Rightarrow> error + 'a list" where
  "np_take xs [] = Inr []"
| "np_take xs (i # is) =
     bind_err (np_item xs i) (\<lambda>r. bind_err (np_take xs is) (\<lambda>rs. Inr (r # rs)))"

text \<open>\<open>np.concatenate([a, b], axis=0)\<close>: the rows of a, then the rows of b.\<close>

definition np_concatenate :: "matrix \<Rightarrow> matrix \<Rightarrow> error + matrix" where
  "np_concatenate a b = (if ncols a = ncols b then Inr (a @ b) else Inl ValueError)"

record 'c frame =
  df_values :: matrix
  df_index :: "int list"
  df_index_name :: "label option"
  df_columns :: "'c list"

text \<open>
  \<open>pd.DataFrame(array, index=index, columns=columns)\<close> on a two-dimensional array
  refuses an array whose shape differs from what the two indexes imply.
\<close>

definition pd_DataFrame ::
  "matrix \<Rightarrow> int list \<Rightarrow> label option \<Rightarrow> 'c list \<Rightarrow> error + 'c frame" where
  "pd_DataFrame data idx nm cols =
     (if length data = length idx \<and> list_all (\<lambda>r. length r = length cols) data
      then Inr \<lparr>df_values = data, df_index = idx, df_index_name = nm, df_columns = cols\<rparr>
      else Inl ValueError)"

text \<open>
  \<open>pd.DataFrame(rows, index=index, columns=columns)\<close> on a list of rows builds the
  table column by column. Each row must have one value per column. A single row is
  repeated under every entry of the index; otherwise there must be one row per entry.
\<close>

definition pd_DataFrame_list ::
  "matrix \<Rightarrow> int list \<Rightarrow> label option \<Rightarrow> 'c list \<Rightarrow> error + 'c frame" where
  "pd_DataFrame_list rows idx nm cols =
     (if \<not> list_all (\<lambda>r. length r = length cols) rows then Inl ValueError
      else if length rows = length idx
        then Inr \<lparr>df_values = rows, df_index = idx, df_index_name = nm, df_columns = cols\<rparr>
      else if length rows = 1
        then Inr \<lparr>df_values = replicate (length idx) (hd rows), df_index = idx,
                  df_index_name = nm, df_columns = cols\<rparr>
      else Inl ValueError)"

text \<open>\<open>pd.DataFrame(array)\<close>: rows and columns are labelled 0, 1, 2, ...\<close>

definition frame_of_array :: "matrix \<Rightarrow> label frame" where
  "frame_of_array a =
     \<lparr>df_values = a, df_index = map int [0 ..< length a], df_index_name = None,
      df_columns = map (\<lambda>j. LInt (int j)) [0 ..< ncols a]\<rparr>"

text \<open>
  Arithmetic between two tables aligns them on their labels first: the result is
  labelled by the union of the row labels and the union of the column labels, and a cell
  that one of the operands lacks is NaN.
\<close>

fun position :: "'a \<Rightarrow> 'a list \<Rightarrow> nat option" where
  "position x [] = None"
| "position x (y # ys) = (if x = y then Some 0 else map_option Suc (position x ys))"

definition cell :: "'c frame \<Rightarrow> int \<Rightarrow> 'c \<Rightarrow> float64" where
  "cell df r c =
     (case position r (df_index df) of
        None \<Rightarrow> NaN
      | Some i \<Rightarrow> (case position c (df_columns df) of
                    None \<Rightarrow> NaN
                  | Some j \<Rightarrow> df_values df ! i ! j))"

definition union_index :: "int list \<Rightarrow> int list \<Rightarrow> int list" where
  "union_index a b =
     (if a = b then a else if a = [] then b else if b = [] then a
      else sort (remdups (a @ b)))"

fun is_LInt :: "label \<Rightarrow> bool" where
  "is_LInt (LInt _) = True"
| "is_LInt (LStr _) = False"

fun int_of_label :: "label \<Rightarrow> int" where
  "int_of_label (LInt i) = i"
| "int_of_label (LStr _) = 0"

fun str_of_label :: "label \<Rightarrow> string" where
  "str_of_label (LStr s) = s"
| "str_of_label (LInt _) = []"

text \<open>The union of column labels is sorted when the labels can be compared.\<close>

definition union_columns :: "label list \<Rightarrow> label list \<Rightarrow> label list" where
  "union_columns a b =
     (if a = b then a else if a = [] then b else if b = [] then a
      else let u = remdups (a @ b)
           in if list_all is_LInt u then sort_key int_of_label u
              else if list_all (\<lambda>l. \<not> is_LInt l) u then sort_key str_of_label u
              else u)"

definition df_sub :: "label frame \<Rightarrow> label frame \<Rightarrow> label frame" where
  "df_sub a b =
     (let idx = union_index (df_index a) (df_index b);
          cols = union_columns (df_columns a) (df_columns b)
      in \<lparr>df_values = map (\<lambda>r. map (\<lambda>c. fsub (cell a r c) (cell b r c)) cols) idx,
          df_index = idx,
          df_index_name =
            (if df_index_name a = df_index_name b then df_index_name a else None),
          df_columns = cols\<rparr>)"

text \<open>
  \<open>pd.MultiIndex.from_product([var_names, coverage, ["lower", "upper"]])\<close>: the
  labels are the triples of the cartesian product, the first component varying slowest.
  Every member of the outer list must be list-like; a single name (a string or a
  number) is not, and is refused.
\<close>

datatype var_names = Name label | Names "label list"

type_synonym int_label = "label \<times> float64 \<times> string"

definition from_product ::
  "var_names \<Rightarrow> float64 list \<Rightarrow> string list \<Rightarrow> error + int_label list" where
  "from_product vn coverage sides =
     (case vn of
        Name _ \<Rightarrow> Inl TypeError
      | Names vs \<Rightarrow>
          Inr (concat (map (\<lambda>v. concat (map (\<lambda>c. map (\<lambda>s. (v, c, s)) sides) coverage)) vs)))"

subsection \<open>The forecasting horizon\<close>

text \<open>
  Modelled from the spec: the class ForecastingHorizon of sktime is not part of this
  module. A horizon is an ordered collection of integer offsets relative to the cutoff;
  positive offsets lie in the future, the others in the training data. Time points are
  integers. \<open>to_relative\<close> gives the offsets, \<open>to_absolute_index\<close> the time points
  \<open>cutoff + k\<close>, and \<open>to_indexer\<close> the zero-based position \<open>k - 1\<close> of step
  \<open>k\<close> in an array of forecasts whose first row is step 1. The offsets and the
  positions do not depend on the cutoff, and are there also when the adapter has none
  yet; the absolute time points need one.
\<close>

type_synonym ForecastingHorizon = "int list"

definition to_relative :: "ForecastingHorizon \<Rightarrow> int option \<Rightarrow> int list" where
  "to_relative fh cutoff = fh"

definition to_absolute_index :: "ForecastingHorizon \<Rightarrow> int \<Rightarrow> int list" where
  "to_absolute_index fh cutoff = map (\<lambda>k. cutoff + k) fh"

definition to_indexer :: "ForecastingHorizon \<Rightarrow> int option \<Rightarrow> int list" where
  "to_indexer fh cutoff = map (\<lambda>k. k - 1) (to_relative fh cutoff)"

text \<open>\<open>Index.max()\<close> and \<open>Index.min()\<close>; of an empty index they are NaN.\<close>

definition index_max :: "int list \<Rightarrow> int option" where
  "index_max xs = (case xs of [] \<Rightarrow> None | x # r \<Rightarrow> Some (fold max r x))"

definition index_min :: "int list \<Rightarrow> int option" where
  "index_min xs = (case xs of [] \<Rightarrow> None | x # r \<Rightarrow> Some (fold min r x))"

subsection \<open>The estimation library\<close>

text \<open>
  statsmodels is a parameter. A fitted model offers \<open>predict\<close>, which returns the
  point forecasts, or (when \<open>alpha\<close> is passed) the triple of point forecasts, lower
  bounds and upper bounds, each with one row per step ahead; and \<open>resid\<close>. The two
  ways of calling \<open>predict\<close> are two fields here. Either may raise.
\<close>

record fitted_forecaster =
  ff_predict :: "int \<Rightarrow> matrix option \<Rightarrow> pyval \<Rightarrow> error + matrix"
  ff_predict_alpha ::
    "int \<Rightarrow> matrix option \<Rightarrow> pyval \<Rightarrow> float64 \<Rightarrow> error + (matrix \<times> matrix \<times> matrix)"
  ff_resid :: matrix

text \<open>The keyword arguments the adapter passes to the constructor of the model.\<close>

record vecm_args =
  arg_endog :: "label frame"
  arg_exog :: "label frame option"
  arg_exog_coint :: pyval
  arg_dates :: pyval
  arg_freq :: pyval
  arg_missing :: pyval
  arg_k_ar_diff :: pyval
  arg_coint_rank :: pyval
  arg_deterministic :: pyval
  arg_seasons :: pyval
  arg_first_season :: pyval

record 'm statsmodels =
  sm_VECM :: "vecm_args \<Rightarrow> error + 'm"
  sm_fit :: "'m \<Rightarrow> pyval \<Rightarrow> error + fitted_forecaster"

subsection \<open>The adapter\<close>

text \<open>
  The object: the eleven configuration options, the two attributes that \<open>_fit\<close>
  sets (absent until then), and the state the base class keeps (the training data, the
  cutoff, the fitted flag). The option \<open>method\<close> of the source is the field
  \<open>est_method\<close>, the plain name being taken in Isabelle.
\<close>

record 'm vecm =
  dates :: pyval
  freq :: pyval
  missing :: pyval
  k_ar_diff :: pyval
  coint_rank :: pyval
  deterministic :: pyval
  seasons :: pyval
  first_season :: pyval
  est_method :: pyval
  exog_coint :: pyval
  exog_coint_fc :: pyval
  self_forecaster :: "'m option"
  self_fitted_forecaster :: "fitted_forecaster option"
  self_y :: "label frame option"
  self_cutoff :: "int option"
  self_is_fitted :: bool

definition VECM_init ::
  "pyval \<Rightarrow> pyval \<Rightarrow> pyval \<Rightarrow> pyval \<Rightarrow> pyval \<Rightarrow> pyval \<Rightarrow> pyval \<Rightarrow> pyval \<Rightarrow> pyval \<Rightarrow> pyval
     \<Rightarrow> pyval \<Rightarrow> 'm vecm" where
  "VECM_init dates' freq' missing' k_ar_diff' coint_rank' deterministic' seasons'
       first_season' est_method' exog_coint' exog_coint_fc' =
     \<lparr>dates = dates', freq = freq', missing = missing', k_ar_diff = k_ar_diff',
      coint_rank = coint_rank', deterministic = deterministic', seasons = seasons',
      first_season = first_season', est_method = est_method', exog_coint = exog_coint',
      exog_coint_fc = exog_coint_fc',
      self_forecaster = None, self_fitted_forecaster = None,
      self_y = None, self_cutoff = None, self_is_fitted = False\<rparr>"

text \<open>
  \<open>_fit\<close>: build the model from the data and the stored options, fit it with the
  stored method, keep both. The result is the object as the call leaves it, and the
  exception if one was raised.
\<close>

definition VECM_fit ::
  "'m statsmodels \<Rightarrow> 'm vecm \<Rightarrow> label frame \<Rightarrow> ForecastingHorizon option
     \<Rightarrow> label frame option \<Rightarrow> 'm vecm \<times> error option" where
  "VECM_fit lib self y fh X =
     (case sm_VECM lib
             \<lparr>arg_endog = y, arg_exog = X, arg_exog_coint = exog_coint self,
              arg_dates = dates self, arg_freq = freq self, arg_missing = missing self,
              arg_k_ar_diff = k_ar_diff self, arg_coint_rank = coint_rank self,
              arg_deterministic = deterministic self, arg_seasons = seasons self,
              arg_first_season = first_season self\<rparr> of
        Inl e \<Rightarrow> (self, Some e)
      | Inr m \<Rightarrow>
          (let self1 = self\<lparr>self_forecaster := Some m\<rparr>
           in case sm_fit lib m (est_method self1) of
                Inl e \<Rightarrow> (self1, Some e)
              | Inr r \<Rightarrow> (self1\<lparr>self_fitted_forecaster := Some r\<rparr>, None)))"

definition get_fitted :: "'m vecm \<Rightarrow> error + fitted_forecaster" where
  "get_fitted self =
     (case self_fitted_forecaster self of None \<Rightarrow> Inl AttributeError | Some r \<Rightarrow> Inr r)"

text \<open>
  Reading an attribute of the training table, as in \<open>self._y.index\<close> or
  \<open>self._y.columns\<close>: before any fit \<open>self._y\<close> is \<open>None\<close>, which has no
  attributes.
\<close>

definition get_y :: "'m vecm \<Rightarrow> error + label frame" where
  "get_y self = (case self_y self of None \<Rightarrow> Inl AttributeError | Some y \<Rightarrow> Inr y)"

text \<open>
  \<open>fh.to_absolute_index(self.cutoff)\<close>. Reading \<open>self.cutoff\<close> does not fail;
  Modelled from the spec: without a cutoff the horizon has no absolute time points, and
  the model gives a ValueError there.
\<close>

definition absolute_index :: "'m vecm \<Rightarrow> ForecastingHorizon \<Rightarrow> error + int list" where
  "absolute_index self fh =
     (case self_cutoff self of
        None \<Rightarrow> Inl ValueError
      | Some cutoff \<Rightarrow> Inr (to_absolute_index fh cutoff))"

text \<open>The three stages of \<open>_predict\<close> before the final table is built.\<close>

definition y_pred_outsample :: "'m vecm \<Rightarrow> int list \<Rightarrow> matrix option \<Rightarrow> error + matrix option" where
  "y_pred_outsample self fh_int exog_fc =
     (if (case index_max fh_int of None \<Rightarrow> False | Some m \<Rightarrow> m > 0)
      then bind_err (get_fitted self) (\<lambda>ff.
           bind_err (np_item fh_int (- 1)) (\<lambda>steps.
           bind_err (ff_predict ff steps exog_fc (exog_coint_fc self)) (\<lambda>p. Inr (Some p))))
      else Inr None)"

definition y_pred_insample :: "'m vecm \<Rightarrow> int list \<Rightarrow> error + matrix option" where
  "y_pred_insample self fh_int =
     (if (case index_min fh_int of None \<Rightarrow> False | Some m \<Rightarrow> m \<le> 0)
      then bind_err (get_fitted self) (\<lambda>ff.
           case self_y self of
             None \<Rightarrow> Inl TypeError
           | Some y \<Rightarrow> Inr (Some (df_values (df_sub y (frame_of_array (ff_resid ff))))))
      else Inr None)"

definition y_pred_joined :: "matrix option \<Rightarrow> matrix option \<Rightarrow> error + matrix option" where
  "y_pred_joined insample outsample =
     (case insample of
        Some i \<Rightarrow> (case outsample of
                     Some out \<Rightarrow> bind_err (np_concatenate out i) (\<lambda>a. Inr (Some a))
                   | None \<Rightarrow> Inr (Some i))
      | None \<Rightarrow> Inr outsample)"

definition VECM_predict ::
  "'m vecm \<Rightarrow> ForecastingHorizon \<Rightarrow> label frame option \<Rightarrow> error + label frame" where
  "VECM_predict self fh X =
     (let exog_fc = map_option df_values X;
          fh_int = to_relative fh (self_cutoff self) in
      bind_err (y_pred_outsample self fh_int exog_fc) (\<lambda>outsample.
      bind_err (y_pred_insample self fh_int) (\<lambda>insample.
      bind_err (y_pred_joined insample outsample) (\<lambda>y_pred.
      bind_err (absolute_index self fh) (\<lambda>index.
      bind_err (get_y self) (\<lambda>y.
      bind_err (case y_pred of
                  None \<Rightarrow> Inl TypeError
                | Some a \<Rightarrow> np_take a (to_indexer fh (self_cutoff self))) (\<lambda>rows.
      pd_DataFrame rows index (df_index_name y) (df_columns y))))))))"

text \<open>
  \<open>_predict_interval\<close>. The arguments of each call of the library's \<open>predict\<close>
  with an \<open>alpha\<close> (steps, exog_fc, exog_coint_fc, alpha) are one tuple; the call is
  made with that tuple and the tuple is recorded, so that the result carries the calls
  made, also when an exception ends the method.
\<close>

type_synonym call = "int \<times> matrix option \<times> pyval \<times> float64"

definition get_var_names :: "'m vecm \<Rightarrow> error + var_names" where
  "get_var_names self =
     bind_err (get_y self) (\<lambda>y.
       Inr (case df_index_name y of Some n \<Rightarrow> Name n | None \<Rightarrow> Names (df_columns y)))"

text \<open>
  \<open>len(var_names)\<close>. The source evaluates it inside the loop; by then
  \<open>from_product\<close> has refused a single name, so only a list of names gets there and
  the place of the evaluation makes no difference.
\<close>

fun len_var_names :: "var_names \<Rightarrow> error + nat" where
  "len_var_names (Names vs) = Inr (length vs)"
| "len_var_names (Name (LStr s)) = Inr (length s)"
| "len_var_names (Name (LInt _)) = Inl TypeError"

text \<open>The inner loop: the bounds of row 0, variable by variable, lower then upper.\<close>

fun bound_values :: "matrix \<Rightarrow> matrix \<Rightarrow> nat list \<Rightarrow> error + float64 list" where
  "bound_values y_lower y_upper [] = Inr []"
| "bound_values y_lower y_upper (v_idx # rest) =
     bind_err (np_item y_lower 0) (\<lambda>lrow.
     bind_err (np_item lrow (int v_idx)) (\<lambda>l.
     bind_err (np_item y_upper 0) (\<lambda>urow.
     bind_err (np_item urow (int v_idx)) (\<lambda>u.
     bind_err (bound_values y_lower y_upper rest) (\<lambda>values. Inr (l # u # values))))))"

text \<open>One call of the library with the arguments \<open>a\<close>, and the bounds read from it.\<close>

definition predict_bounds :: "fitted_forecaster \<Rightarrow> nat \<Rightarrow> call \<Rightarrow> error + float64 list" where
  "predict_bounds ff n a =
     (case a of (steps, exog_fc, ecfc, alpha) \<Rightarrow>
        bind_err (ff_predict_alpha ff steps exog_fc ecfc alpha) (\<lambda>r.
          case r of (p, y_lower, y_upper) \<Rightarrow> bound_values y_lower y_upper [0 ..< n]))"

text \<open>The outer loop, over the coverage values left, with the accumulators.\<close>

fun coverage_loop ::
  "'m vecm \<Rightarrow> int list \<Rightarrow> matrix option \<Rightarrow> nat \<Rightarrow> float64 list \<Rightarrow> call list \<Rightarrow> float64 list
     \<Rightarrow> call list \<times> (error + float64 list)" where
  "coverage_loop self fh_int exog_fc n [] calls all_values = (calls, Inr all_values)"
| "coverage_loop self fh_int exog_fc n (c # cs) calls all_values =
     (let alpha = fsub (F 1) c in
      case get_fitted self of
        Inl e \<Rightarrow> (calls, Inl e)
      | Inr ff \<Rightarrow>
     (case np_item fh_int (- 1) of
        Inl e \<Rightarrow> (calls, Inl e)
      | Inr steps \<Rightarrow>
     (let a = (steps, exog_fc, exog_coint_fc self, alpha) in
      case predict_bounds ff n a of
        Inl e \<Rightarrow> (calls @ [a], Inl e)
      | Inr values \<Rightarrow>
          coverage_loop self fh_int exog_fc n cs (calls @ [a]) (all_values @ values))))"

text \<open>
  Everything up to the final \<open>pd.DataFrame(...)\<close>: the calls made, and the three
  arguments of that constructor (the data, the row index, the column index).
\<close>

definition interval_table_parts ::
  "'m vecm \<Rightarrow> ForecastingHorizon \<Rightarrow> label frame option \<Rightarrow> float64 list
     \<Rightarrow> call list \<times> (error + matrix \<times> int list \<times> int_label list)" where
  "interval_table_parts self fh X coverage =
     (let exog_fc = map_option df_values X;
          fh_int = to_relative fh (self_cutoff self) in
      case get_var_names self of
        Inl e \<Rightarrow> ([], Inl e)
      | Inr var_names \<Rightarrow>
     (case from_product var_names coverage [''lower'', ''upper''] of
        Inl e \<Rightarrow> ([], Inl e)
      | Inr int_idx \<Rightarrow>
     (case len_var_names var_names of
        Inl e \<Rightarrow> ([], Inl e)
      | Inr n \<Rightarrow>
     (case coverage_loop self fh_int exog_fc n coverage [] [] of
        (calls, Inl e) \<Rightarrow> (calls, Inl e)
      | (calls, Inr all_values) \<Rightarrow>
     (case absolute_index self fh of
        Inl e \<Rightarrow> (calls, Inl e)
      | Inr index \<Rightarrow> (calls, Inr ([all_values], index, int_idx)))))))"

definition VECM_predict_interval ::
  "'m vecm \<Rightarrow> ForecastingHorizon \<Rightarrow> label frame option \<Rightarrow> float64 list
     \<Rightarrow> call list \<times> (error + int_label frame)" where
  "VECM_predict_interval self fh X coverage =
     (case interval_table_parts self fh X coverage of
        (calls, Inl e) \<Rightarrow> (calls, Inl e)
      | (calls, Inr (data, index, int_idx)) \<Rightarrow>
          (calls, pd_DataFrame_list data index None int_idx))"

text \<open>\<open>get_test_params\<close>: two dictionaries of keyword arguments.\<close>

definition VECM_get_test_params :: "string \<Rightarrow> (string \<times> pyval) list list" where
  "VECM_get_test_params parameter_set = [[], [(''k_ar_diff'', PInt 2)]]"

text \<open>
  \<open>VECM(**params)\<close>: the signature of \<open>__init__\<close> with its defaults; a keyword
  that is not a parameter is a TypeError.
\<close>

definition param_names :: "string list" where
  "param_names =
     [''dates'', ''freq'', ''missing'', ''k_ar_diff'', ''coint_rank'', ''deterministic'',
      ''seasons'', ''first_season'', ''method'', ''exog_coint'', ''exog_coint_fc'']"

definition kwarg :: "(string \<times> pyval) list \<Rightarrow> string \<Rightarrow> pyval \<Rightarrow> pyval" where
  "kwarg kw k d = (case map_of kw k of None \<Rightarrow> d | Some v \<Rightarrow> v)"

definition VECM_new :: "(string \<times> pyval) list \<Rightarrow> error + 'm vecm" where
  "VECM_new kw =
     (if list_all (\<lambda>kv. fst kv \<in> set param_names) kw
      then Inr (VECM_init (kwarg kw ''dates'' PNone) (kwarg kw ''freq'' PNone)
                  (kwarg kw ''missing'' (PStr ''none'')) (kwarg kw ''k_ar_diff'' (PInt 1))
                  (kwarg kw ''coint_rank'' (PInt 1)) (kwarg kw ''deterministic'' (PStr ''n''))
                  (kwarg kw ''seasons'' (PInt 0)) (kwarg kw ''first_season'' (PInt 0))
                  (kwarg kw ''method'' (PStr ''ml'')) (kwarg kw ''exog_coint'' PNone)
                  (kwarg kw ''exog_coint_fc'' PNone))
      else Inl TypeError)"

subsection \<open>The public methods of the base class\<close>

text \<open>
  Modelled from the spec: the base class of the adapter (its \<open>fit\<close>, \<open>predict\<close>
  and \<open>predict_interval\<close>, and the state it keeps: the training data, the cutoff and
  the fitted flag) is not part of this module. By the spec it validates the
  input (a training table needs two columns or more), keeps the training data and the
  cutoff (the last time point of the training data), and checks the fitted state before
  any prediction: without it the call fails with a not-fitted error. The work itself is
  done by \<open>_fit\<close>, \<open>_predict\<close> and \<open>_predict_interval\<close> above.
\<close>

definition fit ::
  "'m statsmodels \<Rightarrow> 'm vecm \<Rightarrow> label frame \<Rightarrow> ForecastingHorizon option
     \<Rightarrow> label frame option \<Rightarrow> 'm vecm \<times> error option" where
  "fit lib self y fh X =
     (if length (df_columns y) < 2 then (self, Some ValueError)
      else
        (let self0 = self\<lparr>self_y := Some y,
                          self_cutoff := (case df_index y of [] \<Rightarrow> None
                                          | t # ts \<Rightarrow> Some (last (t # ts))),
                          self_is_fitted := False\<rparr>
         in case VECM_fit lib self0 y fh X of
              (self1, Some e) \<Rightarrow> (self1, Some e)
            | (self1, None) \<Rightarrow> (self1\<lparr>self_is_fitted := True\<rparr>, None)))"

definition predict ::
  "'m vecm \<Rightarrow> ForecastingHorizon \<Rightarrow> label frame option \<Rightarrow> error + label frame" where
  "predict self fh X =
     (if self_is_fitted self then VECM_predict self fh X else Inl NotFittedError)"

definition predict_interval ::
  "'m vecm \<Rightarrow> ForecastingHorizon \<Rightarrow> label frame option \<Rightarrow> float64 list
     \<Rightarrow> call list \<times> (error + int_label frame)" where
  "predict_interval self fh X coverage =
     (if self_is_fitted self then VECM_predict_interval self fh X coverage
      else ([], Inl NotFittedError))"

subsection \<open>A small fitted adapter, for the examples\<close>

text \<open>
  A library whose fitted model forecasts, \<open>i\<close> steps ahead, the row \<open>[i, i + 10]\<close>,
  with lower bounds 50 below and upper bounds 50 above, and whose residuals on three
  training rows are 1, 2 and 3. Three training tables with the same values: one with
  columns A and B, one with columns 0 and 1, one whose index is named.
\<close>

fun ex_rows :: "real \<Rightarrow> nat \<Rightarrow> matrix" where
  "ex_rows b 0 = []"
| "ex_rows b (Suc n) = ex_rows b n @ [[F (b + real (Suc n)), F (b + 10 + real (Suc n))]]"

definition ex_ff :: fitted_forecaster where
  "ex_ff =
     \<lparr>ff_predict = (\<lambda>steps exog_fc ecfc. Inr (ex_rows 0 (nat steps))),
      ff_predict_alpha = (\<lambda>steps exog_fc ecfc alpha.
         Inr (ex_rows 0 (nat steps), ex_rows (- 50) (nat steps), ex_rows 50 (nat steps))),
      ff_resid = [[F 1, F 1], [F 2, F 2], [F 3, F 3]]\<rparr>"

definition ex_lib :: "unit statsmodels" where
  "ex_lib = \<lparr>sm_VECM = (\<lambda>args. Inr ()), sm_fit = (\<lambda>m meth. Inr ex_ff)\<rparr>"

text \<open>
  A second library, whose bounds depend on the arguments of the call: they lie
  \<open>100 * (1 - alpha) * steps\<close> below and above the forecast.
\<close>

definition ex_ff_args :: fitted_forecaster where
  "ex_ff_args =
     \<lparr>ff_predict = (\<lambda>steps exog_fc ecfc. Inr (ex_rows 0 (nat steps))),
      ff_predict_alpha = (\<lambda>steps exog_fc ecfc alpha.
         case alpha of
           NaN \<Rightarrow> Inl (LibraryError ''alpha'')
         | F a \<Rightarrow> Inr (ex_rows 0 (nat steps),
                        ex_rows (- (100 * (1 - a) * real_of_int steps)) (nat steps),
                        ex_rows (100 * (1 - a) * real_of_int steps) (nat steps))),
      ff_resid = [[F 1, F 1], [F 2, F 2], [F 3, F 3]]\<rparr>"

definition ex_lib_args :: "unit statsmodels" where
  "ex_lib_args = \<lparr>sm_VECM = (\<lambda>args. Inr ()), sm_fit = (\<lambda>m meth. Inr ex_ff_args)\<rparr>"

definition ex_y :: "label frame" where
  "ex_y = \<lparr>df_values = [[F 10, F 20], [F 30, F 40], [F 50, F 60]], df_index = [0, 1, 2],
           df_index_name = None, df_columns = [LStr ''A'', LStr ''B'']\<rparr>"

definition ex_y_positional :: "label frame" where
  "ex_y_positional = ex_y\<lparr>df_columns := [LInt 0, LInt 1]\<rparr>"

definition ex_y_named :: "label frame" where
  "ex_y_named = ex_y\<lparr>df_index_name := Some (LStr ''t'')\<rparr>"

definition ex_self :: "unit vecm" where
  "ex_self = VECM_init PNone PNone (PStr ''none'') (PInt 1) (PInt 1) (PStr ''n'') (PInt 0)
               (PInt 0) (PStr ''ml'') PNone PNone"

definition ex_fitted :: "unit vecm" where
  "ex_fitted = fst (fit ex_lib ex_self ex_y None None)"

definition ex_fitted_positional :: "unit vecm" where
  "ex_fitted_positional = fst (fit ex_lib ex_self ex_y_positional None None)"

definition ex_fitted_named :: "unit vecm" where
  "ex_fitted_named = fst (fit ex_lib ex_self ex_y_named None None)"

definition ex_fitted_args :: "unit vecm" where
  "ex_fitted_args = fst (fit ex_lib_args ex_self ex_y None None)"

section \<open>Properties\<close>

subsection \<open>Configuration and life cycle\<close>

text \<open>
  C10. \<open>get_test_params\<close> returns exactly two configuration dictionaries, whatever
  the parameter set asked for: the empty one and \<open>{"k_ar_diff": 2}\<close>. They differ,
  and each builds an instance: the first the default configuration, the second the
  default configuration with lag-difference order 2.
\<close>

theorem get_test_params_two_configs:
  "VECM_get_test_params parameter_set = [[], [(''k_ar_diff'', PInt 2)]]
   \<and> length (VECM_get_test_params parameter_set) = 2
   \<and> distinct (VECM_get_test_params parameter_set)
   \<and> (VECM_new (VECM_get_test_params parameter_set ! 0) :: error + 'm vecm) =
       Inr (VECM_init PNone PNone (PStr ''none'') (PInt 1) (PInt 1) (PStr ''n'') (PInt 0)
              (PInt 0) (PStr ''ml'') PNone PNone)
   \<and> (VECM_new (VECM_get_test_params parameter_set ! 1) :: error + 'm vecm) =
       Inr (VECM_init PNone PNone (PStr ''none'') (PInt 2) (PInt 1) (PStr ''n'') (PInt 0)
              (PInt 0) (PStr ''ml'') PNone PNone)"
  by (simp add: VECM_get_test_params_def VECM_new_def kwarg_def param_names_def)

text \<open>
  C9. The constructor stores each of the eleven options in the field of the same name,
  as given: it has no failing branch. \<open>_fit\<close>, whether the library raises or not,
  leaves an object that differs from the one it started from in the two fitted-state
  fields at most; in particular every configuration field is as before.
\<close>

theorem config_stored_verbatim_and_kept_by_fit:
  "dates (VECM_init d f mi k cr de s fs me ec ecf :: 'm vecm) = d
   \<and> freq (VECM_init d f mi k cr de s fs me ec ecf :: 'm vecm) = f
   \<and> missing (VECM_init d f mi k cr de s fs me ec ecf :: 'm vecm) = mi
   \<and> k_ar_diff (VECM_init d f mi k cr de s fs me ec ecf :: 'm vecm) = k
   \<and> coint_rank (VECM_init d f mi k cr de s fs me ec ecf :: 'm vecm) = cr
   \<and> deterministic (VECM_init d f mi k cr de s fs me ec ecf :: 'm vecm) = de
   \<and> seasons (VECM_init d f mi k cr de s fs me ec ecf :: 'm vecm) = s
   \<and> first_season (VECM_init d f mi k cr de s fs me ec ecf :: 'm vecm) = fs
   \<and> est_method (VECM_init d f mi k cr de s fs me ec ecf :: 'm vecm) = me
   \<and> exog_coint (VECM_init d f mi k cr de s fs me ec ecf :: 'm vecm) = ec
   \<and> exog_coint_fc (VECM_init d f mi k cr de s fs me ec ecf :: 'm vecm) = ecf
   \<and> (let after = fst (VECM_fit lib (self :: 'm vecm) y fh X) in
       after = self\<lparr>self_forecaster := self_forecaster after,
                    self_fitted_forecaster := self_fitted_forecaster after\<rparr>
   \<and> dates after = dates self \<and> freq after = freq self \<and> missing after = missing self
   \<and> k_ar_diff after = k_ar_diff self \<and> coint_rank after = coint_rank self
   \<and> deterministic after = deterministic self \<and> seasons after = seasons self
   \<and> first_season after = first_season self \<and> est_method after = est_method self
   \<and> exog_coint after = exog_coint self \<and> exog_coint_fc after = exog_coint_fc self)"
  by (simp add: VECM_init_def VECM_fit_def Let_def split: sum.split)

text \<open>
  C8. On an instance that has only been constructed, \<open>predict\<close> and
  \<open>predict_interval\<close> fail with the not-fitted error, which is not the attribute
  error. (The check is the base class's, modelled from the spec.)
\<close>

theorem predict_before_fit_is_not_fitted_error:
  "predict (VECM_init d f mi k cr de s fs me ec ecf) fh X = Inl NotFittedError
   \<and> snd (predict_interval (VECM_init d f mi k cr de s fs me ec ecf) fh X coverage)
       = Inl NotFittedError
   \<and> NotFittedError \<noteq> AttributeError"
  by (simp add: predict_def predict_interval_def VECM_init_def)

subsection \<open>Auxiliary facts\<close>

lemma ex_fitted_eq:
  "ex_fitted = ex_self\<lparr>self_forecaster := Some (), self_fitted_forecaster := Some ex_ff,
                         self_y := Some ex_y, self_cutoff := Some 2, self_is_fitted := True\<rparr>"
  by (simp add: ex_fitted_def fit_def VECM_fit_def ex_lib_def ex_y_def Let_def)

lemma ex_fitted_args_eq:
  "ex_fitted_args = ex_self\<lparr>self_forecaster := Some (), self_fitted_forecaster := Some ex_ff_args,
       self_y := Some ex_y, self_cutoff := Some 2, self_is_fitted := True\<rparr>"
  by (simp add: ex_fitted_args_def fit_def VECM_fit_def ex_lib_args_def ex_y_def Let_def)

lemma ex_fitted_named_eq:
  "ex_fitted_named = ex_self\<lparr>self_forecaster := Some (), self_fitted_forecaster := Some ex_ff,
       self_y := Some ex_y_named, self_cutoff := Some 2, self_is_fitted := True\<rparr>"
  by (simp add: ex_fitted_named_def fit_def VECM_fit_def ex_lib_def ex_y_named_def ex_y_def Let_def)

lemma ex_fitted_positional_eq:
  "ex_fitted_positional = ex_self\<lparr>self_forecaster := Some (), self_fitted_forecaster := Some ex_ff,
       self_y := Some ex_y_positional, self_cutoff := Some 2, self_is_fitted := True\<rparr>"
  by (simp add: ex_fitted_positional_def fit_def VECM_fit_def ex_lib_def ex_y_positional_def ex_y_def Let_def)

lemma ex_fit_result: "fit ex_lib ex_self ex_y None None = (ex_fitted, None)"
  by (simp add: ex_fitted_def fit_def VECM_fit_def ex_lib_def ex_y_def Let_def)

lemma ex_rows_3: "ex_rows 0 (nat 3) = [[F 1, F 11], [F 2, F 12], [F 3, F 13]]"
  by (simp add: numeral_3_eq_3)

lemma bind_err_Inr_iff:
  "bind_err m f = Inr y \<longleftrightarrow> (\<exists>x. m = Inr x \<and> f x = Inr y)"
  by (cases m) (simp_all add: bind_err_def)

lemma np_item_last:
  assumes "np_item xs (- 1) = Inr s"
  shows "xs \<noteq> [] \<and> s = last xs"
proof -
  from assms have ne: "xs \<noteq> []"
    by (auto simp: np_item_def Let_def split: if_splits)
  moreover from assms ne have "s = xs ! (length xs - 1)"
    by (auto simp: np_item_def Let_def nat_diff_distrib' split: if_splits)
  ultimately show ?thesis by (simp add: last_conv_nth)
qed

lemma sorted_last_Max:
  assumes "sorted (xs :: int list)" and "xs \<noteq> []"
  shows "last xs = Max (set xs)"
proof -
  have "last xs \<in> set xs" using assms(2) by simp
  moreover have "x \<le> last xs" if "x \<in> set xs" for x
  proof -
    from that obtain i where "i < length xs" "xs ! i = x" by (auto simp: in_set_conv_nth)
    with assms show ?thesis
      by (auto simp: last_conv_nth intro!: sorted_nth_mono)
  qed
  ultimately show ?thesis by (intro Max_eqI [symmetric]) auto
qed

lemma sorted_le_last:
  assumes "sorted (xs :: int list)" and "x \<in> set xs"
  shows "x \<le> last xs"
proof -
  from assms(2) obtain i where "i < length xs" "xs ! i = x" by (auto simp: in_set_conv_nth)
  moreover from assms(2) have "xs \<noteq> []" by auto
  ultimately show ?thesis
    using assms(1) by (auto simp: last_conv_nth intro!: sorted_nth_mono)
qed

lemma sorted_hd_le:
  assumes "sorted (xs :: int list)" and "x \<in> set xs"
  shows "hd xs \<le> x"
  using assms by (cases xs) auto

lemma index_max_sorted:
  assumes "sorted xs" and "xs \<noteq> []"
  shows "index_max xs = Some (last xs)"
proof -
  from assms(2) obtain x r where xs: "xs = x # r" by (cases xs) auto
  have "fold max r x = Max (set (x # r))" by (rule Max.set_eq_fold [symmetric])
  also have "\<dots> = last xs" using sorted_last_Max [OF assms] xs by simp
  finally show ?thesis by (simp add: index_max_def xs)
qed

lemma index_min_sorted:
  assumes "sorted xs" and "xs \<noteq> []"
  shows "index_min xs = Some (hd xs)"
proof -
  from assms(2) obtain x r where xs: "xs = x # r" by (cases xs) auto
  have "fold min r x = Min (set (x # r))" by (rule Min.set_eq_fold [symmetric])
  also have "\<dots> = x"
    using assms(1) xs by (intro Min_eqI) auto
  finally show ?thesis by (simp add: index_min_def xs)
qed

lemma index_min_le_max:
  assumes "xs \<noteq> []"
  shows "\<exists>lo hi. index_min xs = Some lo \<and> index_max xs = Some hi \<and> lo \<le> hi"
proof -
  from assms obtain x r where xs: "xs = x # r" by (cases xs) auto
  have "fold min r x = Min (set (x # r))" by (rule Min.set_eq_fold [symmetric])
  moreover have "fold max r x = Max (set (x # r))" by (rule Max.set_eq_fold [symmetric])
  moreover have "Min (set (x # r)) \<le> Max (set (x # r))"
  proof (rule order_trans)
    show "Min (set (x # r)) \<le> x" by (rule Min_le) simp_all
    show "x \<le> Max (set (x # r))" by (rule Max_ge) simp_all
  qed
  ultimately show ?thesis by (simp only: index_min_def index_max_def xs list.case) simp
qed

lemma np_take_map:
  assumes "\<forall>i \<in> set js. - int (length xs) \<le> i \<and> i < int (length xs)"
  shows "np_take xs js =
           Inr (map (\<lambda>i. if 0 \<le> i then xs ! nat i else xs ! nat (int (length xs) + i)) js)"
  using assms
proof (induction js)
  case Nil
  then show ?case by simp
next
  case (Cons j js)
  then have "np_item xs j = Inr (if 0 \<le> j then xs ! nat j else xs ! nat (int (length xs) + j))"
    by (auto simp: np_item_def)
  with Cons show ?case by (simp add: bind_err_def)
qed

lemma list_all_np_take:
  assumes "np_take xs js = Inr rows" and "list_all P xs"
  shows "list_all P rows"
  using assms
proof (induction js arbitrary: rows)
  case Nil
  then show ?case by simp
next
  case (Cons j js)
  from Cons.prems(1) obtain r rs where
    r: "np_item xs j = Inr r" and rs: "np_take xs js = Inr rs" and rows: "rows = r # rs"
    by (auto simp: bind_err_Inr_iff)
  from r have "r \<in> set xs" by (auto simp: np_item_def split: if_splits)
  with Cons.prems(2) have "P r" by (simp add: list_all_iff)
  with Cons.IH [OF rs Cons.prems(2)] rows show ?case by simp
qed

lemma fit_success:
  assumes "fit lib self y fh X = (fitted, None)"
  shows "self_is_fitted fitted \<and> self_y fitted = Some y
         \<and> (df_index y \<noteq> [] \<longrightarrow> self_cutoff fitted = Some (last (df_index y)))
         \<and> 2 \<le> length (df_columns y)
         \<and> exog_coint_fc fitted = exog_coint_fc self
         \<and> (\<exists>ff. self_fitted_forecaster fitted = Some ff)"
proof -
  from assms have two: "2 \<le> length (df_columns y)"
    by (auto simp: fit_def split: if_splits)
  let ?s0 = "self\<lparr>self_y := Some y,
                   self_cutoff := (case df_index y of [] \<Rightarrow> None | t # ts \<Rightarrow> Some (last (t # ts))),
                   self_is_fitted := False\<rparr>"
  obtain s1 e where f: "VECM_fit lib ?s0 y fh X = (s1, e)" by (cases "VECM_fit lib ?s0 y fh X") auto
  from assms two f have e: "e = None" and fitted: "fitted = s1\<lparr>self_is_fitted := True\<rparr>"
    by (auto simp: fit_def Let_def split: option.splits)
  from f e obtain m r where
    "s1 = ?s0\<lparr>self_forecaster := Some m, self_fitted_forecaster := Some r\<rparr>"
    by (auto simp: VECM_fit_def Let_def split: sum.splits)
  with fitted two show ?thesis by (cases "df_index y") auto
qed

lemma position_nth:
  "distinct xs \<Longrightarrow> i < length xs \<Longrightarrow> position (xs ! i) xs = Some i"
proof (induction xs arbitrary: i)
  case Nil
  then show ?case by simp
next
  case (Cons x xs)
  show ?case
  proof (cases i)
    case 0
    then show ?thesis by simp
  next
    case (Suc j)
    with Cons.prems have "xs ! j \<noteq> x" "position (xs ! j) xs = Some j"
      using Cons.IH [of j] by auto
    with Suc show ?thesis by simp
  qed
qed

lemma cell_nth:
  assumes "distinct (df_index a)" "distinct (df_columns a)"
    and "i < length (df_index a)" "j < length (df_columns a)"
  shows "cell a (df_index a ! i) (df_columns a ! j) = df_values a ! i ! j"
  using assms by (simp add: cell_def position_nth)

lemma map_by_nth: "map f xs = map (\<lambda>i. f (xs ! i)) [0 ..< length xs]"
  by (rule nth_equalityI) simp_all

lemma df_sub_aligned:
  assumes "df_index a = df_index b" "df_columns a = df_columns b"
    and "distinct (df_index a)" "distinct (df_columns a)"
  shows "df_values (df_sub a b) =
           map (\<lambda>i. map (\<lambda>j. fsub (df_values a ! i ! j) (df_values b ! i ! j))
                        [0 ..< length (df_columns a)]) [0 ..< length (df_index a)]"
proof -
  let ?idx = "df_index a" and ?cols = "df_columns a"
  have "df_values (df_sub a b) =
          map (\<lambda>r. map (\<lambda>c. fsub (cell a r c) (cell b r c)) ?cols) ?idx"
    using assms(1,2) by (simp add: df_sub_def union_index_def union_columns_def Let_def)
  also have "\<dots> = map (\<lambda>i. map (\<lambda>j. fsub (cell a (?idx ! i) (?cols ! j))
                                          (cell b (?idx ! i) (?cols ! j)))
                              [0 ..< length ?cols]) [0 ..< length ?idx]"
    by (subst map_by_nth [of _ ?idx], subst map_by_nth [of _ ?cols]) simp
  also have "\<dots> = map (\<lambda>i. map (\<lambda>j. fsub (df_values a ! i ! j) (df_values b ! i ! j))
                              [0 ..< length ?cols]) [0 ..< length ?idx]"
  proof (intro map_cong refl)
    fix i j assume "i \<in> set [0 ..< length ?idx]" "j \<in> set [0 ..< length ?cols]"
    then have ij: "i < length ?idx" "j < length ?cols" by simp_all
    have "cell a (?idx ! i) (?cols ! j) = df_values a ! i ! j"
      using assms(3,4) ij by (rule cell_nth)
    moreover have "cell b (df_index b ! i) (df_columns b ! j) = df_values b ! i ! j"
      using assms ij by (intro cell_nth) simp_all
    ultimately show "fsub (cell a (?idx ! i) (?cols ! j)) (cell b (?idx ! i) (?cols ! j)) =
                     fsub (df_values a ! i ! j) (df_values b ! i ! j)"
      using assms(1,2) by simp
  qed
  finally show ?thesis .
qed

lemma bound_values_length:
  "bound_values lo up vs = Inr v \<Longrightarrow> length v = 2 * length vs"
proof (induction vs arbitrary: v)
  case Nil
  then show ?case by simp
next
  case (Cons x vs)
  from Cons.prems obtain l u rest where
    "bound_values lo up vs = Inr rest" "v = l # u # rest"
    by (auto simp: bind_err_Inr_iff)
  with Cons.IH [of rest] show ?case by simp
qed

lemma predict_bounds_length:
  assumes "predict_bounds ff n a = Inr v"
  shows "length v = 2 * n"
proof -
  obtain steps exog_fc ecfc alpha where a: "a = (steps, exog_fc, ecfc, alpha)"
    by (cases a) auto
  from assms [unfolded a] obtain p lo up where "bound_values lo up [0 ..< n] = Inr v"
    by (auto simp: predict_bounds_def bind_err_Inr_iff)
  from bound_values_length [OF this] show ?thesis by simp
qed

lemma coverage_loop_Inr:
  assumes "coverage_loop self fh_int exog_fc n cs calls acc = (calls', Inr vals)"
  shows "calls' = calls @ map (\<lambda>c. (last fh_int, exog_fc, exog_coint_fc self, fsub (F 1) c)) cs
         \<and> (cs \<noteq> [] \<longrightarrow> fh_int \<noteq> [] \<and> self_fitted_forecaster self \<noteq> None)
         \<and> (\<forall>ff. self_fitted_forecaster self = Some ff \<longrightarrow>
               (\<exists>chunks. map (predict_bounds ff n) (map (\<lambda>c. (last fh_int, exog_fc,
                              exog_coint_fc self, fsub (F 1) c)) cs) = map Inr chunks
                          \<and> vals = acc @ concat chunks))
         \<and> length vals = length acc + 2 * n * length cs"
  using assms
proof (induction cs arbitrary: calls acc)
  case Nil
  then show ?case by simp
next
  case (Cons c cs)
  obtain ff where ff: "get_fitted self = Inr ff"
    using Cons.prems by (cases "get_fitted self") (simp_all add: Let_def)
  then have sf: "self_fitted_forecaster self = Some ff"
    by (auto simp: get_fitted_def split: option.splits)
  obtain steps where st: "np_item fh_int (- 1) = Inr steps"
    using Cons.prems ff by (cases "np_item fh_int (- 1)") (simp_all add: Let_def)
  from np_item_last [OF st] have ne: "fh_int \<noteq> []" and steps: "steps = last fh_int"
    by simp_all
  let ?a = "(last fh_int, exog_fc, exog_coint_fc self, fsub (F 1) c)"
  obtain bvals where bv: "predict_bounds ff n ?a = Inr bvals"
    using Cons.prems ff st steps
    by (cases "predict_bounds ff n ?a") (simp_all add: Let_def)
  have rest: "coverage_loop self fh_int exog_fc n cs (calls @ [?a]) (acc @ bvals)
                = (calls', Inr vals)"
    using Cons.prems ff st steps bv by (simp add: Let_def)
  note ih = Cons.IH [OF rest]
  from ih obtain chunks where
    ch: "map (predict_bounds ff n) (map (\<lambda>c. (last fh_int, exog_fc, exog_coint_fc self,
           fsub (F 1) c)) cs) = map Inr chunks" "vals = (acc @ bvals) @ concat chunks"
    using sf by blast
  have "map (predict_bounds ff n) (map (\<lambda>c. (last fh_int, exog_fc, exog_coint_fc self,
           fsub (F 1) c)) (c # cs)) = map Inr (bvals # chunks)
        \<and> vals = acc @ concat (bvals # chunks)"
    using ch bv by simp
  then have "\<exists>chunks. map (predict_bounds ff n) (map (\<lambda>c. (last fh_int, exog_fc,
                 exog_coint_fc self, fsub (F 1) c)) (c # cs)) = map Inr chunks
               \<and> vals = acc @ concat chunks"
    by blast
  moreover have "length vals = length acc + 2 * n * length (c # cs)"
    using ih predict_bounds_length [OF bv] by simp
  moreover have "calls' = calls @ map (\<lambda>c. (last fh_int, exog_fc, exog_coint_fc self,
                                          fsub (F 1) c)) (c # cs)"
    using ih by simp
  ultimately show ?case using ne sf by simp
qed

lemma interval_table_parts_Inr:
  assumes "interval_table_parts self fh X coverage = (calls, Inr (data, index, int_idx))"
  shows "\<exists>cutoff vn n all_values.
    self_cutoff self = Some cutoff \<and> get_var_names self = Inr vn
    \<and> from_product vn coverage [''lower'', ''upper''] = Inr int_idx
    \<and> len_var_names vn = Inr n
    \<and> coverage_loop self fh (map_option df_values X) n coverage [] [] = (calls, Inr all_values)
    \<and> data = [all_values] \<and> index = to_absolute_index fh cutoff"
proof -
  note d = interval_table_parts_def Let_def to_relative_def
  obtain vn where v: "get_var_names self = Inr vn"
    using assms by (cases "get_var_names self") (simp_all add: d)
  obtain idx where i: "from_product vn coverage [''lower'', ''upper''] = Inr idx"
    using assms v
    by (cases "from_product vn coverage [''lower'', ''upper'']") (simp_all add: d)
  obtain n where n: "len_var_names vn = Inr n"
    using assms v i by (cases "len_var_names vn") (simp_all add: d)
  obtain cs r where l: "coverage_loop self fh (map_option df_values X) n coverage [] [] = (cs, r)"
    by (cases "coverage_loop self fh (map_option df_values X) n coverage [] []") auto
  obtain all_values where r: "r = Inr all_values"
    using assms v i n l by (cases r) (simp_all add: d)
  obtain ix where a: "absolute_index self fh = Inr ix"
    using assms v i n l r by (cases "absolute_index self fh") (simp_all add: d)
  then obtain cutoff where c: "self_cutoff self = Some cutoff" "ix = to_absolute_index fh cutoff"
    by (auto simp: absolute_index_def split: option.splits)
  from assms v i n l r a
  have "calls = cs" "data = [all_values]" "index = ix" "int_idx = idx"
    by (simp_all add: d)
  with c v i n l r show ?thesis by blast
qed

lemma from_product_length:
  assumes "from_product (Names vs) coverage [''lower'', ''upper''] = Inr idx"
  shows "length idx = 2 * length vs * length coverage"
proof -
  have c: "length (concat (map f xs)) = length xs * k"
    if "\<And>x. length (f x) = k" for f :: "'x \<Rightarrow> 'y list" and xs k
    using that by (induction xs) simp_all
  have "length (concat (map (\<lambda>c. map (\<lambda>s. (v, c, s)) [''lower'', ''upper'']) coverage))
          = length coverage * 2" for v :: label
    by (rule c) simp
  then have "length (concat (map (\<lambda>v. concat (map (\<lambda>c. map (\<lambda>s. (v, c, s))
               [''lower'', ''upper'']) coverage)) vs)) = length vs * (length coverage * 2)"
    by (rule c)
  with assms show ?thesis by (simp add: from_product_def)
qed

lemma interval_parts_total:
  assumes "interval_table_parts self fh X coverage = (calls, Inr (data, index, int_idx))"
  shows "\<exists>all_values cutoff.
           data = [all_values] \<and> self_cutoff self = Some cutoff
           \<and> index = to_absolute_index fh cutoff
           \<and> VECM_predict_interval self fh X coverage =
               (calls, Inr \<lparr>df_values = replicate (length fh) all_values,
                            df_index = to_absolute_index fh cutoff, df_index_name = None,
                            df_columns = int_idx\<rparr>)"
proof -
  from interval_table_parts_Inr [OF assms] obtain cutoff vn n all_values where
    c: "self_cutoff self = Some cutoff" and v: "get_var_names self = Inr vn"
    and i: "from_product vn coverage [''lower'', ''upper''] = Inr int_idx"
    and n: "len_var_names vn = Inr n"
    and l: "coverage_loop self fh (map_option df_values X) n coverage [] []
              = (calls, Inr all_values)"
    and d: "data = [all_values]" "index = to_absolute_index fh cutoff"
    by blast
  from i obtain vs where vs: "vn = Names vs" by (cases vn) (auto simp: from_product_def)
  with n have "n = length vs" by simp
  with coverage_loop_Inr [OF l] from_product_length [OF i [unfolded vs]]
  have w: "length all_values = length int_idx" by simp
  have "pd_DataFrame_list [all_values] index None int_idx =
          Inr \<lparr>df_values = replicate (length fh) all_values, df_index = index,
               df_index_name = None, df_columns = int_idx\<rparr>"
    using w d(2) by (cases fh) (auto simp: pd_DataFrame_list_def to_absolute_index_def)
  with assms c d show ?thesis by (simp add: VECM_predict_interval_def)
qed

lemma predict_interval_Inr:
  assumes "VECM_predict_interval self fh X coverage = (calls, Inr t)"
  shows "\<exists>cutoff all_values.
           self_cutoff self = Some cutoff
           \<and> interval_table_parts self fh X coverage
               = (calls, Inr ([all_values], to_absolute_index fh cutoff, df_columns t))
           \<and> df_index t = to_absolute_index fh cutoff
           \<and> length (df_index t) = length fh
           \<and> df_values t = replicate (length fh) all_values"
proof -
  obtain cs r where p: "interval_table_parts self fh X coverage = (cs, r)"
    by (cases "interval_table_parts self fh X coverage") auto
  obtain data index int_idx where r: "r = Inr (data, index, int_idx)"
    using assms p by (cases r) (auto simp: VECM_predict_interval_def)
  from assms p r have cs: "calls = cs" by (simp add: VECM_predict_interval_def)
  from interval_parts_total [OF p [unfolded r]] assms cs p r show ?thesis
    by (auto simp: to_absolute_index_def)
qed

lemma interval_parts_columns:
  assumes "interval_table_parts self fh X coverage = (calls, Inr (data, index, int_idx))"
    and "self_y self = Some y" and "df_index_name y = None"
  shows "int_idx = concat (map (\<lambda>v. concat (map (\<lambda>c. [(v, c, ''lower''), (v, c, ''upper'')])
                                  coverage)) (df_columns y))"
proof -
  from interval_table_parts_Inr [OF assms(1)] obtain vn where
    "get_var_names self = Inr vn" "from_product vn coverage [''lower'', ''upper''] = Inr int_idx"
    by blast
  with assms(2,3) show ?thesis
    by (auto simp: get_var_names_def get_y_def bind_err_def from_product_def)
qed

lemmas eval_defs = VECM_predict_interval_def interval_table_parts_def absolute_index_def
  get_var_names_def get_y_def get_fitted_def bind_err_def from_product_def to_relative_def
  to_absolute_index_def to_indexer_def np_item_def pd_DataFrame_def pd_DataFrame_list_def
  predict_bounds_def ex_self_def VECM_init_def
  ex_y_def ex_ff_def ex_ff_args_def Let_def numeral_2_eq_2 numeral_3_eq_3 upt_rec
  predict_def predict_interval_def VECM_predict_def y_pred_outsample_def y_pred_insample_def
  y_pred_joined_def index_max_def index_min_def np_concatenate_def ncols_def
  df_sub_def frame_of_array_def union_index_def union_columns_def cell_def

lemma ex_interval_table:
  "VECM_predict_interval ex_fitted_args [1, 2] None [F (9 / 10), F (1 / 2)] =
     ([(2, None, PNone, F (1 / 10)), (2, None, PNone, F (1 / 2))],
      Inr \<lparr>df_values =
             [[F (- 179), F 181, F (- 169), F 191, F (- 99), F 101, F (- 89), F 111],
              [F (- 179), F 181, F (- 169), F 191, F (- 99), F 101, F (- 89), F 111]],
           df_index = [3, 4], df_index_name = None,
           df_columns =
             [(LStr ''A'', F (9 / 10), ''lower''), (LStr ''A'', F (9 / 10), ''upper''),
              (LStr ''A'', F (1 / 2), ''lower''), (LStr ''A'', F (1 / 2), ''upper''),
              (LStr ''B'', F (9 / 10), ''lower''), (LStr ''B'', F (9 / 10), ''upper''),
              (LStr ''B'', F (1 / 2), ''lower''), (LStr ''B'', F (1 / 2), ''upper'')]\<rparr>)"
  by (simp add: ex_fitted_args_eq eval_defs)

text \<open>
  Without the check of the base class, the methods of this module do not produce a
  not-fitted error: on a fresh instance \<open>_predict\<close> stops with an AttributeError
  where it reads the fitted model, for any horizon that is not empty.
\<close>

lemma private_predict_on_fresh_instance:
  assumes "fh \<noteq> []"
  shows "VECM_predict (VECM_init d f mi k cr de s fs me ec ecf :: 'm vecm) fh X
           = Inl AttributeError"
proof -
  let ?self = "VECM_init d f mi k cr de s fs me ec ecf :: 'm vecm"
  have nf: "get_fitted ?self = Inl AttributeError"
    by (simp add: get_fitted_def VECM_init_def)
  from index_min_le_max [OF assms] obtain lo hi where
    m: "index_min fh = Some lo" "index_max fh = Some hi" "lo \<le> hi" by blast
  show ?thesis
  proof (cases "0 < hi")
    case True
    with m nf have "y_pred_outsample ?self fh (map_option df_values X) = Inl AttributeError"
      by (simp add: y_pred_outsample_def bind_err_def)
    then show ?thesis
      by (simp add: VECM_predict_def to_relative_def bind_err_def Let_def)
  next
    case False
    with m nf have "y_pred_outsample ?self fh (map_option df_values X) = Inr None"
      "y_pred_insample ?self fh = Inl AttributeError"
      by (simp_all add: y_pred_outsample_def y_pred_insample_def bind_err_def)
    then show ?thesis
      by (simp add: VECM_predict_def to_relative_def bind_err_def Let_def)
  qed
qed

subsection \<open>Interval prediction\<close>

text \<open>
  C6. When the interval prediction, on an adapter fitted with the model \<open>ff\<close> and an
  ordered horizon, returns its table: the library's forecast routine has been called
  exactly once per coverage value, in the order of the coverage list, each time with
  significance level \<open>1 - c\<close>, with the exogenous values and the stored
  \<open>exog_coint_fc\<close>, and with \<open>max(offset)\<close> steps (the last offset of the ordered
  horizon). And the row of the table is made of the bounds read from what \<open>ff\<close>
  returns at exactly these arguments, one chunk per coverage value in that order.
\<close>

theorem interval_calls_once_per_coverage:
  assumes run: "VECM_predict_interval self fh X coverage = (calls, Inr t)"
    and fh: "sorted fh"
    and ff: "self_fitted_forecaster self = Some ff"
    and y: "self_y self = Some y"
  shows "calls = map (\<lambda>c. (Max (set fh), map_option df_values X, exog_coint_fc self,
                           fsub (F 1) c)) coverage
         \<and> (\<exists>chunks.
               map (\<lambda>c. bind_err (ff_predict_alpha ff (Max (set fh)) (map_option df_values X)
                                     (exog_coint_fc self) (fsub (F 1) c))
                          (\<lambda>(p, y_lower, y_upper).
                             bound_values y_lower y_upper [0 ..< length (df_columns y)]))
                   coverage = map Inr chunks
               \<and> df_values t = replicate (length fh) (concat chunks))"
proof -
  let ?exog = "map_option df_values X"
  from predict_interval_Inr [OF run] obtain cutoff all_values where
    parts: "interval_table_parts self fh X coverage
              = (calls, Inr ([all_values], to_absolute_index fh cutoff, df_columns t))"
    and vals: "df_values t = replicate (length fh) all_values"
    by blast
  from interval_table_parts_Inr [OF parts] obtain vn n where
    v: "get_var_names self = Inr vn"
    and i: "from_product vn coverage [''lower'', ''upper''] = Inr (df_columns t)"
    and n: "len_var_names vn = Inr n"
    and loop: "coverage_loop self fh ?exog n coverage [] [] = (calls, Inr all_values)"
    by blast
  from i obtain vs where "vn = Names vs" by (cases vn) (auto simp: from_product_def)
  with v y n have n: "n = length (df_columns y)"
    by (auto simp: get_var_names_def get_y_def bind_err_def split: option.splits)
  from coverage_loop_Inr [OF loop] ff obtain chunks where
    c: "calls = map (\<lambda>c. (last fh, ?exog, exog_coint_fc self, fsub (F 1) c)) coverage"
    and ne: "coverage \<noteq> [] \<longrightarrow> fh \<noteq> []"
    and ch: "map (predict_bounds ff n) (map (\<lambda>c. (last fh, ?exog, exog_coint_fc self,
                fsub (F 1) c)) coverage) = map Inr chunks"
      "all_values = concat chunks"
    by auto
  have steps: "last fh = Max (set fh)" if "coverage \<noteq> []"
    using that ne fh by (simp add: sorted_last_Max)
  have "calls = map (\<lambda>c. (Max (set fh), ?exog, exog_coint_fc self, fsub (F 1) c)) coverage"
    using c steps by (cases "coverage = []") simp_all
  moreover have "map (\<lambda>c. bind_err (ff_predict_alpha ff (Max (set fh)) ?exog
                                     (exog_coint_fc self) (fsub (F 1) c))
                          (\<lambda>(p, y_lower, y_upper).
                             bound_values y_lower y_upper [0 ..< length (df_columns y)]))
                   coverage = map Inr chunks"
    using ch(1) steps n
    by (cases "coverage = []") (simp_all add: predict_bounds_def comp_def)
  ultimately show ?thesis using vals ch(2) by blast
qed

theorem interval_calls_once_per_coverage_witness:
  "VECM_predict_interval ex_fitted_args [1, 2] None [F (9 / 10), F (1 / 2)] =
     ([(2, None, PNone, F (1 / 10)), (2, None, PNone, F (1 / 2))],
      Inr \<lparr>df_values =
             [[F (- 179), F 181, F (- 169), F 191, F (- 99), F 101, F (- 89), F 111],
              [F (- 179), F 181, F (- 169), F 191, F (- 99), F 101, F (- 89), F 111]],
           df_index = [3, 4], df_index_name = None,
           df_columns =
             [(LStr ''A'', F (9 / 10), ''lower''), (LStr ''A'', F (9 / 10), ''upper''),
              (LStr ''A'', F (1 / 2), ''lower''), (LStr ''A'', F (1 / 2), ''upper''),
              (LStr ''B'', F (9 / 10), ''lower''), (LStr ''B'', F (9 / 10), ''upper''),
              (LStr ''B'', F (1 / 2), ''lower''), (LStr ''B'', F (1 / 2), ''upper'')]\<rparr>)
   \<and> sorted [1, 2 :: int]
   \<and> self_fitted_forecaster ex_fitted_args = Some ex_ff_args
   \<and> self_y ex_fitted_args = Some ex_y
   \<and> [(2 :: int, None, PNone, F (1 / 10)), (2, None, PNone, F (1 / 2))] =
       map (\<lambda>c. (Max (set [1, 2]), map_option df_values (None :: label frame option),
                  exog_coint_fc ex_fitted_args, fsub (F 1) c)) [F (9 / 10), F (1 / 2)]
   \<and> map (\<lambda>c. bind_err (ff_predict_alpha ex_ff_args (Max (set [1, 2]))
                          (map_option df_values (None :: label frame option))
                          (exog_coint_fc ex_fitted_args) (fsub (F 1) c))
               (\<lambda>(p, y_lower, y_upper).
                  bound_values y_lower y_upper [0 ..< length (df_columns ex_y)]))
        [F (9 / 10), F (1 / 2)] =
       map Inr [[F (- 179), F 181, F (- 169), F 191], [F (- 99), F 101, F (- 89), F 111]]"
proof -
  have s: "sorted [1, 2 :: int]" by simp
  have f: "self_fitted_forecaster ex_fitted_args = Some ex_ff_args"
    and y: "self_y ex_fitted_args = Some ex_y"
    by (simp_all add: ex_fitted_args_eq)
  from interval_calls_once_per_coverage [OF ex_interval_table s f y]
  have c: "[(2 :: int, None, PNone, F (1 / 10)), (2, None, PNone, F (1 / 2))] =
          map (\<lambda>c. (Max (set [1, 2]), map_option df_values (None :: label frame option),
                     exog_coint_fc ex_fitted_args, fsub (F 1) c)) [F (9 / 10), F (1 / 2)]"
    by (rule conjunct1)
  have "map (\<lambda>c. bind_err (ff_predict_alpha ex_ff_args (Max (set [1, 2]))
                          (map_option df_values (None :: label frame option))
                          (exog_coint_fc ex_fitted_args) (fsub (F 1) c))
               (\<lambda>(p, y_lower, y_upper).
                  bound_values y_lower y_upper [0 ..< length (df_columns ex_y)]))
          [F (9 / 10), F (1 / 2)] =
        map Inr [[F (- 179), F 181, F (- 169), F 191], [F (- 99), F 101, F (- 89), F 111]]"
    by (simp add: ex_fitted_args_eq eval_defs)
  with ex_interval_table s f y c show ?thesis by (intro conjI)
qed

text \<open>
  C2. Whenever the interval prediction returns a table, the data it has handed to the
  table constructor is exactly one row of bound values, and the row index it has handed
  over is the absolute index of the whole horizon, one entry per offset. The table
  returned carries that index; pandas puts the one row under each of its time points.
\<close>

theorem interval_one_row_full_index:
  assumes "VECM_predict_interval self fh X coverage = (calls, Inr t)"
  shows "\<exists>cutoff all_values.
           self_cutoff self = Some cutoff
           \<and> interval_table_parts self fh X coverage
               = (calls, Inr ([all_values], to_absolute_index fh cutoff, df_columns t))
           \<and> df_index t = to_absolute_index fh cutoff
           \<and> length (df_index t) = length fh
           \<and> df_values t = replicate (length fh) all_values"
  using assms by (rule predict_interval_Inr)

theorem interval_one_row_full_index_witness:
  "VECM_predict_interval ex_fitted_args [1, 2] None [F (9 / 10), F (1 / 2)] =
     ([(2, None, PNone, F (1 / 10)), (2, None, PNone, F (1 / 2))],
      Inr \<lparr>df_values =
             [[F (- 179), F 181, F (- 169), F 191, F (- 99), F 101, F (- 89), F 111],
              [F (- 179), F 181, F (- 169), F 191, F (- 99), F 101, F (- 89), F 111]],
           df_index = [3, 4], df_index_name = None,
           df_columns =
             [(LStr ''A'', F (9 / 10), ''lower''), (LStr ''A'', F (9 / 10), ''upper''),
              (LStr ''A'', F (1 / 2), ''lower''), (LStr ''A'', F (1 / 2), ''upper''),
              (LStr ''B'', F (9 / 10), ''lower''), (LStr ''B'', F (9 / 10), ''upper''),
              (LStr ''B'', F (1 / 2), ''lower''), (LStr ''B'', F (1 / 2), ''upper'')]\<rparr>)
   \<and> self_cutoff ex_fitted_args = Some 2
   \<and> interval_table_parts ex_fitted_args [1, 2] None [F (9 / 10), F (1 / 2)] =
       ([(2, None, PNone, F (1 / 10)), (2, None, PNone, F (1 / 2))],
        Inr ([[F (- 179), F 181, F (- 169), F 191, F (- 99), F 101, F (- 89), F 111]],
             to_absolute_index [1, 2] 2,
             [(LStr ''A'', F (9 / 10), ''lower''), (LStr ''A'', F (9 / 10), ''upper''),
              (LStr ''A'', F (1 / 2), ''lower''), (LStr ''A'', F (1 / 2), ''upper''),
              (LStr ''B'', F (9 / 10), ''lower''), (LStr ''B'', F (9 / 10), ''upper''),
              (LStr ''B'', F (1 / 2), ''lower''), (LStr ''B'', F (1 / 2), ''upper'')]))
   \<and> [3, 4] = to_absolute_index [1, 2] 2
   \<and> length [3, 4 :: int] = length [1, 2 :: int]
   \<and> [[F (- 179), F 181, F (- 169), F 191, F (- 99), F 101, F (- 89), F 111],
       [F (- 179), F 181, F (- 169), F 191, F (- 99), F 101, F (- 89), F 111]] =
      replicate (length [1, 2 :: int])
        [F (- 179), F 181, F (- 169), F 191, F (- 99), F 101, F (- 89), F 111]"
proof -
  from interval_one_row_full_index [OF ex_interval_table] obtain cutoff all_values where
    c: "self_cutoff ex_fitted_args = Some cutoff"
    and p: "interval_table_parts ex_fitted_args [1, 2] None [F (9 / 10), F (1 / 2)] =
              ([(2, None, PNone, F (1 / 10)), (2, None, PNone, F (1 / 2))],
               Inr ([all_values], to_absolute_index [1, 2] cutoff,
                    [(LStr ''A'', F (9 / 10), ''lower''), (LStr ''A'', F (9 / 10), ''upper''),
                     (LStr ''A'', F (1 / 2), ''lower''), (LStr ''A'', F (1 / 2), ''upper''),
                     (LStr ''B'', F (9 / 10), ''lower''), (LStr ''B'', F (9 / 10), ''upper''),
                     (LStr ''B'', F (1 / 2), ''lower''), (LStr ''B'', F (1 / 2), ''upper'')]))"
    and v: "[[F (- 179), F 181, F (- 169), F 191, F (- 99), F 101, F (- 89), F 111],
             [F (- 179), F 181, F (- 169), F 191, F (- 99), F 101, F (- 89), F 111]]
            = replicate (length [1, 2 :: int]) all_values"
    by auto
  from c have c2: "cutoff = 2" by (simp add: ex_fitted_args_eq)
  from v have "all_values = [F (- 179), F 181, F (- 169), F 191, F (- 99), F 101, F (- 89), F 111]"
    by (simp add: numeral_2_eq_2)
  with p c c2 ex_interval_table show ?thesis
    by (simp add: to_absolute_index_def numeral_2_eq_2)
qed

text \<open>
  The table is built whenever the method gets as far as its constructor: the one row
  always has as many values as the column index has labels.
\<close>

lemma interval_table_built:
  assumes "interval_table_parts self fh X coverage = (calls, Inr (data, index, int_idx))"
  shows "\<exists>t. VECM_predict_interval self fh X coverage = (calls, Inr t)"
  using interval_parts_total [OF assms] by blast

text \<open>
  The bounds that enter the table are read from row 0 of the arrays the library returns,
  whatever else those arrays hold.
\<close>

lemma bound_values_row0:
  "bound_values (l # ls) (u # us) vs = bound_values [l] [u] vs"
  by (induction vs) (simp_all add: np_item_def)

text \<open>
  C1. The claim is that the bounds are those of the final requested step. On the example
  adapter, with the horizon \<open>[2]\<close> and coverage 0.9, the library returns bounds for
  two steps ahead: \<open>[-49, -39]\<close> to \<open>[51, 61]\<close> for the first step,
  \<open>[-48, -38]\<close> to \<open>[52, 62]\<close> for the second. The table holds the bounds of the
  first step, labelled with the time point of the second.
\<close>

theorem interval_bounds_are_those_of_the_first_step:
  "ff_predict_alpha ex_ff 2 None PNone (F (1 / 10)) =
     Inr ([[F 1, F 11], [F 2, F 12]],
          [[F (- 49), F (- 39)], [F (- 48), F (- 38)]],
          [[F 51, F 61], [F 52, F 62]])
   \<and> VECM_predict_interval ex_fitted [2] None [F (9 / 10)] =
     ([(2, None, PNone, F (1 / 10))],
      Inr \<lparr>df_values = [[F (- 49), F 51, F (- 39), F 61]], df_index = [4],
           df_index_name = None,
           df_columns = [(LStr ''A'', F (9 / 10), ''lower''), (LStr ''A'', F (9 / 10), ''upper''),
                         (LStr ''B'', F (9 / 10), ''lower''), (LStr ''B'', F (9 / 10), ''upper'')]\<rparr>)"
  by (simp add: ex_fitted_eq eval_defs)

text \<open>
  C7. The claim is that the column index of the interval table is the product of the
  training columns, the coverage values and the two sides. On a training table whose
  index has a name, the source takes that name in the place of the column names; it is a
  single name, pandas refuses it, and the method ends with a TypeError before any call
  to the library: no table, no column index.
\<close>

theorem interval_with_named_index_is_type_error:
  "df_index_name ex_y_named = Some (LStr ''t'')
   \<and> df_columns ex_y_named = [LStr ''A'', LStr ''B'']
   \<and> VECM_predict_interval ex_fitted_named [1] None [F (9 / 10)] = ([], Inl TypeError)"
  by (simp add: ex_fitted_named_eq ex_y_named_def eval_defs)

text \<open>
  When the index of the training table has no name, the column index of the table
  returned is that product: the variables are the training columns in their order,
  under each the coverage values in the caller's order, under each \<open>lower\<close> then
  \<open>upper\<close>.
\<close>

lemma interval_output_columns:
  assumes "VECM_predict_interval self fh X coverage = (calls, Inr t)"
    and "self_y self = Some y" and "df_index_name y = None"
  shows "df_columns t =
           concat (map (\<lambda>v. concat (map (\<lambda>c. [(v, c, ''lower''), (v, c, ''upper'')])
                                coverage)) (df_columns y))"
proof -
  from predict_interval_Inr [OF assms(1)] obtain data index where
    "interval_table_parts self fh X coverage = (calls, Inr (data, index, df_columns t))"
    by blast
  from interval_parts_columns [OF this assms(2,3)] show ?thesis .
qed

subsection \<open>Point prediction\<close>

text \<open>
  C4. After a successful \<open>fit\<close> on a training table (which then has two columns or
  more), \<open>predict\<close> with an ordered horizon of positive offsets, on a library whose
  forecast for \<open>n\<close> steps has \<open>n\<close> rows of one value per training column, returns
  a table with one row per offset of the horizon, the columns of the training table, and
  the absolute time points of the horizon as index, in the order of the horizon; row
  \<open>i\<close> is the forecast for the \<open>i\<close>-th offset.
\<close>

theorem fit_then_predict_future_horizon:
  assumes fit: "fit lib self y fh0 X0 = (fitted, None)"
    and idx: "df_index y \<noteq> []"
    and fh: "fh \<noteq> []" "sorted fh" "0 < hd fh"
    and ff: "self_fitted_forecaster fitted = Some ff"
    and out: "ff_predict ff (last fh) (map_option df_values X) (exog_coint_fc fitted) = Inr out"
    and len: "length out = nat (last fh)"
    and width: "list_all (\<lambda>r. length r = length (df_columns y)) out"
  shows "\<exists>t. predict fitted fh X = Inr t
             \<and> length (df_values t) = length fh
             \<and> df_columns t = df_columns y
             \<and> df_index t = to_absolute_index fh (last (df_index y))
             \<and> df_values t = map (\<lambda>k. out ! nat (k - 1)) fh
             \<and> 2 \<le> length (df_columns y)"
proof -
  from fit_success [OF fit] idx have st:
    "self_is_fitted fitted" "self_y fitted = Some y"
    "self_cutoff fitted = Some (last (df_index y))" "2 \<le> length (df_columns y)"
    by simp_all
  have pos: "0 < k" "k \<le> last fh" if "k \<in> set fh" for k
    using that fh sorted_hd_le [of fh k] sorted_le_last [of fh k] by auto
  have "last fh \<in> set fh" using fh(1) by simp
  then have lpos: "0 < last fh" by (rule pos(1))
  have item: "np_item fh (- 1) = Inr (last fh)"
    using fh(1) by (cases fh rule: rev_cases) (auto simp: np_item_def)
  have outs: "y_pred_outsample fitted fh (map_option df_values X) = Inr (Some out)"
    using index_max_sorted [OF fh(2) fh(1)] lpos ff item out
    by (simp add: y_pred_outsample_def get_fitted_def bind_err_def)
  have ins: "y_pred_insample fitted fh = Inr None"
    using index_min_sorted [OF fh(2) fh(1)] fh(3)
    by (simp add: y_pred_insample_def)
  have il: "int (length out) = last fh" using len lpos by simp
  have "- int (length out) \<le> k - 1 \<and> k - 1 < int (length out)" if "k \<in> set fh" for k
    using pos [OF that] il by simp
  then have "\<forall>i \<in> set (map (\<lambda>k. k - 1) fh). - int (length out) \<le> i \<and> i < int (length out)"
    by auto
  from np_take_map [OF this]
  have take: "np_take out (map (\<lambda>k. k - 1) fh) = Inr (map (\<lambda>k. out ! nat (k - 1)) fh)"
    using pos by (simp add: comp_def cong: map_cong)
  from list_all_np_take [OF take width]
  have w: "list_all (\<lambda>r. length r = length (df_columns y)) (map (\<lambda>k. out ! nat (k - 1)) fh)" .
  have "VECM_predict fitted fh X =
          Inr \<lparr>df_values = map (\<lambda>k. out ! nat (k - 1)) fh,
               df_index = to_absolute_index fh (last (df_index y)),
               df_index_name = df_index_name y, df_columns = df_columns y\<rparr>"
    using st outs ins take w
    by (simp add: VECM_predict_def absolute_index_def get_y_def bind_err_def to_relative_def
        to_indexer_def y_pred_joined_def pd_DataFrame_def to_absolute_index_def Let_def)
  with st show ?thesis by (simp add: predict_def)
qed

theorem fit_then_predict_future_horizon_witness:
  "fit ex_lib ex_self ex_y None None = (ex_fitted, None)
   \<and> df_index ex_y \<noteq> [] \<and> [1, 3 :: int] \<noteq> [] \<and> sorted [1, 3 :: int] \<and> 0 < hd [1, 3 :: int]
   \<and> self_fitted_forecaster ex_fitted = Some ex_ff
   \<and> ff_predict ex_ff (last [1, 3]) (map_option df_values None) (exog_coint_fc ex_fitted)
       = Inr [[F 1, F 11], [F 2, F 12], [F 3, F 13]]
   \<and> length [[F 1, F 11], [F 2, F 12], [F 3, F 13]] = nat (last [1, 3])
   \<and> list_all (\<lambda>r. length r = length (df_columns ex_y)) [[F 1, F 11], [F 2, F 12], [F 3, F 13]]
   \<and> (\<exists>t. predict ex_fitted [1, 3] None = Inr t
          \<and> length (df_values t) = length [1, 3 :: int]
          \<and> df_columns t = df_columns ex_y
          \<and> df_index t = to_absolute_index [1, 3] (last (df_index ex_y))
          \<and> df_values t = map (\<lambda>k. [[F 1, F 11], [F 2, F 12], [F 3, F 13]] ! nat (k - 1)) [1, 3]
          \<and> 2 \<le> length (df_columns ex_y))"
proof -
  have h1: "df_index ex_y \<noteq> []" by (simp add: ex_y_def)
  have h2: "[1, 3 :: int] \<noteq> []" "sorted [1, 3 :: int]" "0 < hd [1, 3 :: int]" by simp_all
  have h3: "self_fitted_forecaster ex_fitted = Some ex_ff" by (simp add: ex_fitted_eq)
  have h4: "ff_predict ex_ff (last [1, 3]) (map_option df_values None) (exog_coint_fc ex_fitted)
              = Inr [[F 1, F 11], [F 2, F 12], [F 3, F 13]]"
    by (simp add: ex_ff_def numeral_3_eq_3)
  have h5: "length [[F 1, F 11], [F 2, F 12], [F 3, F 13]] = nat (last [1, 3])" by simp
  have h6: "list_all (\<lambda>r. length r = length (df_columns ex_y))
              [[F 1, F 11], [F 2, F 12], [F 3, F 13]]"
    by (simp add: ex_y_def)
  from fit_then_predict_future_horizon [OF ex_fit_result h1 h2 h3 h4 h5 h6]
    ex_fit_result h1 h2 h3 h4 h5 h6
  show ?thesis by blast
qed

text \<open>
  C5. The claim is that a horizon with both kinds of offsets is served from the
  out-of-sample rows followed by the in-sample rows, one row per offset in the order of
  the horizon. On the example adapter, whose training table has the columns A and B, the
  in-sample table is four columns of NaN (the label alignment of C3), two columns wider
  than the out-of-sample forecast: the concatenation fails with a ValueError, and with
  it the method.
\<close>

theorem mixed_horizon_with_named_columns_is_value_error:
  "df_columns ex_y = [LStr ''A'', LStr ''B'']
   \<and> y_pred_outsample ex_fitted [- 1, 2] None = Inr (Some [[F 1, F 11], [F 2, F 12]])
   \<and> y_pred_insample ex_fitted [- 1, 2] =
       Inr (Some [[NaN, NaN, NaN, NaN], [NaN, NaN, NaN, NaN], [NaN, NaN, NaN, NaN]])
   \<and> y_pred_joined (Some [[NaN, NaN, NaN, NaN], [NaN, NaN, NaN, NaN], [NaN, NaN, NaN, NaN]])
         (Some [[F 1, F 11], [F 2, F 12]]) = Inl ValueError
   \<and> VECM_predict ex_fitted [- 1, 2] None = Inl ValueError"
  by (simp add: ex_fitted_eq eval_defs)

text \<open>
  When the in-sample table is as wide as the training table, the claim holds for an
  ordered horizon that stays within the training data: the joined array is the
  out-of-sample rows followed by the in-sample rows, and the table returned has one row
  per offset in the order of the horizon, the forecast of step \<open>k\<close> for
  \<open>k > 0\<close>, the in-sample row \<open>k\<close> positions after the last one otherwise.
\<close>

lemma mixed_horizon_rows_when_aligned:
  assumes st: "self_fitted_forecaster self = Some ff" "self_y self = Some y"
      "self_cutoff self = Some cutoff"
    and fh: "fh \<noteq> []" "sorted fh" "hd fh \<le> 0" "0 < last fh"
    and out: "ff_predict ff (last fh) (map_option df_values X) (exog_coint_fc self) = Inr out"
    and len: "length out = nat (last fh)"
    and ins: "ins = df_values (df_sub y (frame_of_array (ff_resid ff)))"
    and rng: "- int (length ins) < hd fh"
    and width: "list_all (\<lambda>r. length r = length (df_columns y)) (out @ ins)"
  shows "y_pred_outsample self fh (map_option df_values X) = Inr (Some out)
         \<and> y_pred_insample self fh = Inr (Some ins)
         \<and> y_pred_joined (Some ins) (Some out) = Inr (Some (out @ ins))
         \<and> VECM_predict self fh X =
             Inr \<lparr>df_values = map (\<lambda>k. if 0 < k then out ! nat (k - 1)
                                        else ins ! nat (int (length ins) + k - 1)) fh,
                  df_index = to_absolute_index fh cutoff,
                  df_index_name = df_index_name y, df_columns = df_columns y\<rparr>"
proof -
  let ?a = "out @ ins"
  let ?row = "\<lambda>k. if 0 < k then out ! nat (k - 1) else ins ! nat (int (length ins) + k - 1)"
  have bnd: "hd fh \<le> k" "k \<le> last fh" if "k \<in> set fh" for k
    using that fh sorted_hd_le [of fh k] sorted_le_last [of fh k] by auto
  have il: "int (length out) = last fh" using len fh(4) by simp
  have item: "np_item fh (- 1) = Inr (last fh)"
    using fh(1) by (cases fh rule: rev_cases) (auto simp: np_item_def)
  have outs: "y_pred_outsample self fh (map_option df_values X)
                = Inr (Some out)"
    using index_max_sorted [OF fh(2) fh(1)] fh(4) st(1) item out
    by (simp add: y_pred_outsample_def get_fitted_def bind_err_def to_relative_def)
  have inss: "y_pred_insample self fh = Inr (Some ins)"
    using index_min_sorted [OF fh(2) fh(1)] fh(3) st(1,2) ins
    by (simp add: y_pred_insample_def get_fitted_def get_y_def bind_err_def to_relative_def)
  have one: "out \<noteq> []" using il fh(4) by auto
  have ine: "ins \<noteq> []" using rng fh(3) by auto
  have "ncols out = length (df_columns y)" "ncols ins = length (df_columns y)"
    using width one ine by (cases out; cases ins; simp add: ncols_def)+
  then have joined: "y_pred_joined (Some ins) (Some out) = Inr (Some ?a)"
    by (simp add: y_pred_joined_def np_concatenate_def bind_err_def)
  have r: "- int (length ?a) \<le> k - 1 \<and> k - 1 < int (length ?a)
           \<and> (if 0 \<le> k - 1 then ?a ! nat (k - 1) else ?a ! nat (int (length ?a) + (k - 1)))
               = ?row k"
    if "k \<in> set fh" for k
  proof (cases "0 < k")
    case True
    with bnd [OF that] il have "nat (k - 1) < length out" by simp
    with True bnd [OF that] il show ?thesis by (simp add: nth_append)
  next
    case False
    with bnd [OF that] rng have k: "- int (length ins) < k" "k \<le> 0" by simp_all
    then have "nat (int (length ?a) + (k - 1)) = length out + nat (int (length ins) + k - 1)"
      by (simp add: nat_add_distrib)
    with k False show ?thesis by (simp add: nth_append)
  qed
  then have "\<forall>i \<in> set (map (\<lambda>k. k - 1) fh). - int (length ?a) \<le> i \<and> i < int (length ?a)"
    by auto
  from np_take_map [OF this]
  have "np_take ?a (map (\<lambda>k. k - 1) fh) =
          Inr (map (\<lambda>k. if 0 \<le> k - 1 then ?a ! nat (k - 1)
                         else ?a ! nat (int (length ?a) + (k - 1))) fh)"
    by (simp add: comp_def)
  also have "map (\<lambda>k. if 0 \<le> k - 1 then ?a ! nat (k - 1)
                         else ?a ! nat (int (length ?a) + (k - 1))) fh = map ?row fh"
    using r by (intro map_cong) auto
  finally have take: "np_take ?a (map (\<lambda>k. k - 1) fh) = Inr (map ?row fh)" .
  from list_all_np_take [OF take width]
  have w: "list_all (\<lambda>r. length r = length (df_columns y)) (map ?row fh)" .
  have "VECM_predict self fh X =
          Inr \<lparr>df_values = map ?row fh, df_index = to_absolute_index fh cutoff,
               df_index_name = df_index_name y, df_columns = df_columns y\<rparr>"
    using st outs inss joined take w
    by (simp add: VECM_predict_def absolute_index_def get_y_def bind_err_def to_relative_def
        to_indexer_def pd_DataFrame_def to_absolute_index_def Let_def)
  with outs inss joined show ?thesis by simp
qed

text \<open>So it is on the example adapter with the columns 0 and 1.\<close>

lemma mixed_horizon_with_positional_labels:
  "VECM_predict ex_fitted_positional [- 1, 0, 2] None =
     Inr \<lparr>df_values = [[F 28, F 38], [F 47, F 57], [F 2, F 12]], df_index = [1, 2, 4],
          df_index_name = None, df_columns = [LInt 0, LInt 1]\<rparr>"
  by (simp add: ex_fitted_positional_eq ex_y_positional_def eval_defs)

text \<open>
  C3. The claim is that an in-sample prediction returns the training values minus the
  residuals. The source subtracts a table built from the bare residual array, whose rows
  and columns are labelled 0, 1, 2, ..., from the training table, and pandas aligns the
  two on their labels. On the example adapter, whose training table has the columns A
  and B, no cell of one table meets a cell of the other: the difference has four columns
  of NaN, and the method ends with a ValueError where it puts two column names on it.
\<close>

theorem insample_predict_with_named_columns_is_value_error:
  "df_columns ex_y = [LStr ''A'', LStr ''B'']
   \<and> df_values ex_y = [[F 10, F 20], [F 30, F 40], [F 50, F 60]]
   \<and> ff_resid ex_ff = [[F 1, F 1], [F 2, F 2], [F 3, F 3]]
   \<and> df_sub ex_y (frame_of_array (ff_resid ex_ff)) =
       \<lparr>df_values = [[NaN, NaN, NaN, NaN], [NaN, NaN, NaN, NaN], [NaN, NaN, NaN, NaN]],
        df_index = [0, 1, 2], df_index_name = None,
        df_columns = [LStr ''A'', LStr ''B'', LInt 0, LInt 1]\<rparr>
   \<and> VECM_predict ex_fitted [- 1, 0] None = Inl ValueError"
  by (simp add: ex_fitted_eq eval_defs)

text \<open>
  When the training table carries the labels of a bare array (rows 0, 1, 2, ... and
  columns 0, 1, ...) and the residuals have its shape, the two tables align, and for an
  ordered horizon of offsets \<open>\<le> 0\<close> within the training data the prediction is, cell
  by cell, the training value minus the residual at the offset's position.
\<close>

lemma insample_predict_with_aligned_labels:
  assumes st: "self_fitted_forecaster self = Some ff" "self_y self = Some y"
      "self_cutoff self = Some cutoff"
    and lab: "df_index y = map int [0 ..< length (ff_resid ff)]"
      "df_columns y = map (\<lambda>j. LInt (int j)) [0 ..< ncols (ff_resid ff)]"
    and fh: "fh \<noteq> []" "sorted fh" "last fh \<le> 0" "- int (length (ff_resid ff)) < hd fh"
  shows "VECM_predict self fh X =
           Inr \<lparr>df_values =
                  map (\<lambda>k. map (\<lambda>j. fsub (df_values y ! nat (int (length (df_index y)) + k - 1) ! j)
                                         (ff_resid ff ! nat (int (length (df_index y)) + k - 1) ! j))
                                [0 ..< length (df_columns y)]) fh,
                df_index = to_absolute_index fh cutoff,
                df_index_name = df_index_name y, df_columns = df_columns y\<rparr>"
proof -
  let ?res = "ff_resid ff"
  let ?n = "length (df_index y)" and ?m = "length (df_columns y)"
  let ?cellrow = "\<lambda>i. map (\<lambda>j. fsub (df_values y ! i ! j) (?res ! i ! j)) [0 ..< ?m]"
  let ?ins = "map ?cellrow [0 ..< ?n]"
  let ?row = "\<lambda>k. ?cellrow (nat (int ?n + k - 1))"
  have n: "?n = length ?res" using lab(1) by simp
  have d: "distinct (df_index y)" "distinct (df_columns y)"
    using lab by (simp_all add: distinct_map inj_on_def)
  have "df_values (df_sub y (frame_of_array ?res)) = ?ins"
    using df_sub_aligned [of y "frame_of_array ?res"] lab d
    by (simp add: frame_of_array_def)
  with st(1,2) index_min_sorted [OF fh(2) fh(1)] fh sorted_hd_le [of fh "last fh"]
  have inss: "y_pred_insample self fh = Inr (Some ?ins)"
    by (simp add: y_pred_insample_def get_fitted_def get_y_def bind_err_def)
  have outs: "y_pred_outsample self fh (map_option df_values X) = Inr None"
    using index_max_sorted [OF fh(2) fh(1)] fh(3) by (simp add: y_pred_outsample_def)
  have bnd: "hd fh \<le> k" "k \<le> last fh" if "k \<in> set fh" for k
    using that fh sorted_hd_le [of fh k] sorted_le_last [of fh k] by auto
  have r: "- int (length ?ins) \<le> k - 1 \<and> k - 1 < int (length ?ins)
           \<and> (if 0 \<le> k - 1 then ?ins ! nat (k - 1) else ?ins ! nat (int (length ?ins) + (k - 1)))
               = ?row k"
    if "k \<in> set fh" for k
  proof -
    from bnd [OF that] fh(3,4) n have k: "- int ?n < k" "k \<le> 0" by simp_all
    then have "nat (int ?n + k - 1) < ?n" by simp
    with k show ?thesis by (simp add: algebra_simps)
  qed
  then have "\<forall>i \<in> set (map (\<lambda>k. k - 1) fh). - int (length ?ins) \<le> i \<and> i < int (length ?ins)"
    by auto
  from np_take_map [OF this]
  have "np_take ?ins (map (\<lambda>k. k - 1) fh) =
          Inr (map (\<lambda>k. if 0 \<le> k - 1 then ?ins ! nat (k - 1)
                         else ?ins ! nat (int (length ?ins) + (k - 1))) fh)"
    by (simp add: comp_def)
  also have "map (\<lambda>k. if 0 \<le> k - 1 then ?ins ! nat (k - 1)
                         else ?ins ! nat (int (length ?ins) + (k - 1))) fh = map ?row fh"
    using r by (intro map_cong) auto
  finally have take: "np_take ?ins (map (\<lambda>k. k - 1) fh) = Inr (map ?row fh)" .
  have w: "list_all (\<lambda>r. length r = ?m) (map ?row fh)"
    by (simp add: list_all_iff)
  show ?thesis
    using st outs inss take w
    by (simp add: VECM_predict_def absolute_index_def get_y_def bind_err_def to_relative_def
        to_indexer_def y_pred_joined_def pd_DataFrame_def to_absolute_index_def Let_def)
qed

text \<open>The same on the example adapter with the columns 0 and 1.\<close>

lemma insample_predict_with_positional_labels:
  "VECM_predict ex_fitted_positional [- 1, 0] None =
     Inr \<lparr>df_values = [[F 28, F 38], [F 47, F 57]], df_index = [1, 2],
          df_index_name = None, df_columns = [LInt 0, LInt 1]\<rparr>"
  by (simp add: ex_fitted_positional_eq ex_y_positional_def eval_defs)

end
